theory Spec2Isabelle
  imports Main "HOL-Library.AList"
begin

section \<open>Values shared by the gateway and the endpoint\<close>

text \<open>
  Identifiers are JavaScript strings. A lookup that yields \<open>undefined\<close> is \<open>None\<close>;
  the tests \<open>if (x)\<close> and \<open>if (!x)\<close> of the source are JavaScript truthiness, under
  which both \<open>undefined\<close> and the empty string are false.
\<close>

type_synonym user_id = string
type_synonym socket_id = string
type_synonym call_id = string
type_synonym appointment_id = string
type_synonym sdp = string
type_synonym candidate = string

definition truthy :: "string option \<Rightarrow> bool" where
  "truthy v = (case v of None \<Rightarrow> False | Some s \<Rightarrow> s \<noteq> [])"

definition whenTruthy :: "string option \<Rightarrow> (string \<Rightarrow> 'a list) \<Rightarrow> 'a list" where
  "whenTruthy v f = (case v of None \<Rightarrow> [] | Some s \<Rightarrow> if s = [] then [] else f s)"

text \<open>An awaited call of an external collaborator either throws or returns.\<close>

datatype 'a outcome = Throws | Returns 'a

section \<open>The message gateway (src/unnamed/part_001)\<close>

subsection \<open>State\<close>

text \<open>
  The four \<open>Map\<close> fields of \<open>MessageGateway\<close> are association lists in insertion
  order, which is the iteration order of a JavaScript \<open>Map\<close>: \<open>Map.get\<close> is
  \<open>map_of\<close>, \<open>Map.set\<close> is \<open>AList.update\<close> (an existing key keeps its place, a
  new key goes to the end) and \<open>Map.delete\<close> is \<open>AList.delete\<close>.
  A Node timer handle is a number; the pending timers are part of the state, so that
  \<open>setTimeout\<close> and \<open>clearTimeout\<close> are visible.
\<close>

text \<open>
  A JavaScript number, as far as the gateway computes with one: \<open>NaN\<close>, an integer below
  \<open>2 ^ 53\<close> in magnitude (which a double holds exactly), or \<open>Huge\<close>, some number, finite
  or not, of magnitude \<open>2 ^ 53\<close> or more, whose digits the model does not follow.
\<close>

datatype js_number = NaN | Num int | Huge

text \<open>
  Node's \<open>setTimeout\<close> keeps a delay between 1 and \<open>TIMEOUT_MAX = 2 ^ 31 - 1\<close>
  milliseconds and replaces every other delay, \<open>NaN\<close> included, by 1.
\<close>

definition nodeTimerDelay :: "js_number \<Rightarrow> int" where
  "nodeTimerDelay d =
     (case d of
        Num n \<Rightarrow> if 1 \<le> n \<and> n \<le> 2147483647 then n else 1
      | NaN \<Rightarrow> 1
      | Huge \<Rightarrow> 1)"

record active_call =
  ac_caller :: user_id
  ac_receiver :: user_id
  ac_startTime :: int
  ac_appointmentId :: appointment_id
  ac_callTimeout :: "nat option"

record call_request =
  rq_timeout :: nat
  rq_caller :: user_id
  rq_receiver :: user_id
  rq_appointmentId :: appointment_id

datatype timer_callback =
    RequestTimeout call_id socket_id user_id user_id appointment_id bool
  | DurationTimeout call_id

record gateway =
  clients :: "(user_id \<times> socket_id) list"
  socketToUser :: "(socket_id \<times> user_id) list"
  activeCalls :: "(call_id \<times> active_call) list"
  callRequests :: "(call_id \<times> call_request) list"
  timers :: "(nat \<times> int \<times> timer_callback) list"
  nextTimer :: nat

text \<open>A pending timer is entered with the delay Node runs it after.\<close>

definition setTimeout :: "timer_callback \<Rightarrow> js_number \<Rightarrow> gateway \<Rightarrow> nat \<times> gateway" where
  "setTimeout cb delay st =
     (nextTimer st,
      st\<lparr>timers := timers st @ [(nextTimer st, nodeTimerDelay delay, cb)],
         nextTimer := Suc (nextTimer st)\<rparr>)"

definition clearTimeout :: "nat \<Rightarrow> gateway \<Rightarrow> gateway" where
  "clearTimeout h st = st\<lparr>timers := AList.delete h (timers st)\<rparr>"

subsection \<open>Outbound events and calls of collaborators\<close>

datatype event =
    UserStatusChange user_id string
  | CallEnded call_id appointment_id "string option" string
  | CallCanceled call_id string
  | CallCancelled call_id string
  | CallError string "string option"
  | CallNotAnswered call_id user_id string
  | MissedCall user_id appointment_id bool string
  | IncomingCall call_id user_id appointment_id sdp bool
  | CallRinging call_id user_id
  | CallRejected user_id string
  | AnswerError string
  | CallAccepted call_id sdp user_id appointment_id
  | IceCandidate call_id candidate user_id

text \<open>
  What a handler does to the outside, in the order the source does it:
  \<open>Broadcast\<close> is \<open>this.server.emit\<close>, \<open>EmitTo\<close> is \<open>this.server.to(id).emit\<close>,
  \<open>ClientEmit\<close> is \<open>client.emit\<close>; the remaining constructors are the calls of the
  recording and missed-call collaborators and \<open>console.error\<close>.
\<close>

datatype effect =
    Broadcast event
  | EmitTo socket_id event
  | ClientEmit socket_id event
  | ClientDisconnect socket_id
  | ConsoleError string
  | InitializeRecording appointment_id
  | StartRecording appointment_id call_id
  | GatewayStopRecording socket_id appointment_id
  | StopRecording appointment_id
  | CreateMissedCall appointment_id user_id user_id
  | MarkCallbackUsed string

text \<open>
  A handler is one uninterrupted step of the gateway: the results of the collaborator
  calls it awaits come from its parameter, and no other handler runs in between.
\<close>

subsection \<open>handleDisconnect\<close>

text \<open>
  The body of the first \<open>for\<close> loop of \<open>handleDisconnect\<close> (lines 157-179), for one
  entry of the filtered snapshot of \<open>activeCalls\<close>.
\<close>

definition endCallOnDisconnect ::
  "user_id \<Rightarrow> call_id \<times> active_call \<Rightarrow> gateway \<times> effect list \<Rightarrow> gateway \<times> effect list" where
  "endCallOnDisconnect userId entry acc =
     (case entry of (callId, call) \<Rightarrow> case acc of (st, out) \<Rightarrow>
        let otherPartyId = (if ac_caller call = userId then ac_receiver call else ac_caller call);
            otherPartySocketId = map_of (clients st) otherPartyId;
            st1 = (case ac_callTimeout call of Some h \<Rightarrow> clearTimeout h st | None \<Rightarrow> st);
            st2 = st1\<lparr>activeCalls := AList.delete callId (activeCalls st1)\<rparr>
        in (st2,
            out @ whenTruthy otherPartySocketId (\<lambda>sid.
              [EmitTo sid (CallEnded callId (ac_appointmentId call) (Some ''disconnect'')
                 ''The other participant disconnected'')])))"

text \<open>The body of the second loop (lines 187-202), for one pending request.\<close>

definition cancelRequestOnDisconnect ::
  "user_id \<Rightarrow> call_id \<times> call_request \<Rightarrow> gateway \<times> effect list \<Rightarrow> gateway \<times> effect list" where
  "cancelRequestOnDisconnect userId entry acc =
     (case entry of (callId, request) \<Rightarrow> case acc of (st, out) \<Rightarrow>
        let st1 = clearTimeout (rq_timeout request) st;
            st2 = st1\<lparr>callRequests := AList.delete callId (callRequests st1)\<rparr>
        in (st2,
            out @ (if rq_caller request = userId
                   then whenTruthy (map_of (clients st2) (rq_receiver request)) (\<lambda>sid.
                          [EmitTo sid (CallCanceled callId ''Caller disconnected'')])
                   else [])))"

text \<open>
  The branch taken when the user has no other socket (lines 146-202): the cleanup of
  everything that references the user.
\<close>

definition cascadeOnDisconnect :: "user_id \<Rightarrow> gateway \<Rightarrow> gateway \<times> effect list" where
  "cascadeOnDisconnect userId st =
     (let st1 = st\<lparr>clients := AList.delete userId (clients st)\<rparr>;
          calls = filter (\<lambda>(_, call). ac_caller call = userId \<or> ac_receiver call = userId)
                    (activeCalls st1);
          r1 = fold (endCallOnDisconnect userId) calls (st1, []);
          pendingRequests =
            filter (\<lambda>(_, request). rq_caller request = userId \<or> rq_receiver request = userId)
              (callRequests (fst r1))
      in fold (cancelRequestOnDisconnect userId) pendingRequests r1)"

definition handleDisconnect :: "socket_id \<Rightarrow> gateway \<Rightarrow> gateway \<times> effect list" where
  "handleDisconnect client st =
     (case map_of (socketToUser st) client of
        None \<Rightarrow> (st, [])
      | Some userId \<Rightarrow>
          if userId = [] then (st, [])
          else
            let st1 = st\<lparr>socketToUser := AList.delete client (socketToUser st)\<rparr>;
                hasOtherSockets = list_ex (\<lambda>(_, uid). uid = userId) (socketToUser st1)
            in if \<not> hasOtherSockets then cascadeOnDisconnect userId st1 else (st1, []))"

subsection \<open>External collaborators\<close>

text \<open>
  The repositories, the token check and the recording service are not part of the
  gateway; a handler takes them as a parameter. The fields of an appointment and of a
  validation result are those the gateway reads. The duration of a service is the one
  string whose characters the gateway looks at (with \<open>parseInt\<close>), so it is a JavaScript
  string in full: a list of UTF-16 code units.
\<close>

type_synonym code_unit = nat

record service =
  sv_user_id :: user_id
  sv_duration :: "code_unit list option"

record appointment =
  ap_user_id :: user_id
  ap_service :: "service option"

record validation =
  v_success :: bool
  v_message :: string
  v_startTime :: "string option"
  v_appointment :: "appointment option"
  v_missedCallId :: "string option"

record env =
  jwt_verify :: "string \<Rightarrow> string option outcome"
  getAppointmentWithUsers :: "appointment_id \<Rightarrow> appointment option outcome"
  validateDoctorCallAccess :: "appointment_id \<Rightarrow> user_id \<Rightarrow> validation outcome"
  validatePatientCallbackAccess :: "appointment_id \<Rightarrow> user_id \<Rightarrow> validation outcome"
  validateCallAccess :: "appointment_id \<Rightarrow> user_id \<Rightarrow> validation outcome"
  initializeRecording :: "appointment_id \<Rightarrow> unit outcome"
  startRecording :: "appointment_id \<Rightarrow> call_id \<Rightarrow> unit outcome"
  handleStopRecording :: "socket_id \<Rightarrow> appointment_id \<Rightarrow> unit outcome"
  stopRecording :: "appointment_id \<Rightarrow> unit outcome"
  markCallbackUsed :: "string \<Rightarrow> unit outcome"

subsection \<open>handleConnection and the lookups\<close>

text \<open>
  \<open>authToken || queryToken\<close> takes the query token when the auth token is falsy.
  A token that does not verify makes \<open>jwt.verify\<close> throw, which the handler catches.
\<close>

definition handleConnection ::
  "env \<Rightarrow> socket_id \<Rightarrow> string option \<Rightarrow> string option \<Rightarrow> gateway \<Rightarrow> gateway \<times> effect list" where
  "handleConnection e client authToken queryToken st =
     (case (if truthy authToken then authToken else queryToken) of
        None \<Rightarrow> (st, [ConsoleError ''No token provided'', ClientDisconnect client])
      | Some token \<Rightarrow>
          if token = [] then (st, [ConsoleError ''No token provided'', ClientDisconnect client])
          else
            (case jwt_verify e token of
               Throws \<Rightarrow> (st, [ConsoleError ''Connection error:'', ClientDisconnect client])
             | Returns sub \<Rightarrow>
                 (case sub of
                    None \<Rightarrow>
                      (st, [ConsoleError ''Invalid token - no user ID'', ClientDisconnect client])
                  | Some userId \<Rightarrow>
                      if userId = []
                      then (st, [ConsoleError ''Invalid token - no user ID'', ClientDisconnect client])
                      else
                        (st\<lparr>clients := AList.update userId client (clients st),
                            socketToUser := AList.update client userId (socketToUser st)\<rparr>,
                         [Broadcast (UserStatusChange userId ''online'')]))))"

definition findSocketIdByUserId :: "gateway \<Rightarrow> user_id \<Rightarrow> socket_id option" where
  "findSocketIdByUserId st userId = map_of (clients st) userId"

definition findUserBySocketId :: "gateway \<Rightarrow> socket_id \<Rightarrow> user_id option" where
  "findUserBySocketId st socketId = map_of (socketToUser st) socketId"

text \<open>
  The expression \<open>[...this.clients.entries()].find(([, socketId]) => socketId === client.id)?.[0]\<close>
  of handleRejectCall, handleAnswer and handleReconnectCall: the user of the first entry
  of \<open>clients\<close> whose socket is the client's.
\<close>

definition userOfClientEntry :: "gateway \<Rightarrow> socket_id \<Rightarrow> user_id option" where
  "userOfClientEntry st client =
     map_option fst (List.find (\<lambda>(_, socketId). socketId = client) (clients st))"

subsection \<open>handleCall\<close>

definition callFailed :: "socket_id \<Rightarrow> effect list" where
  "callFailed client =
     [ConsoleError ''Error in handleCall:'',
      ClientEmit client (CallError ''Failed to initiate call. Please try again.'' None)]"

text \<open>
  The part of handleCall after the validation has succeeded (lines 510-599). The call id
  the source builds from the clock and a random number is a parameter.
\<close>

definition placeCall ::
  "env \<Rightarrow> call_id \<Rightarrow> socket_id \<Rightarrow> user_id \<Rightarrow> appointment_id \<Rightarrow> user_id \<Rightarrow> sdp \<Rightarrow> bool \<Rightarrow> bool \<Rightarrow>
   string option \<Rightarrow> gateway \<Rightarrow> gateway \<times> effect list" where
  "placeCall e callId client callerId appointmentId receiver offer isDoctorCalling isPatientCalling
     missedCallId st =
     (case map_of (clients st) receiver of
        None \<Rightarrow> (st, [ClientEmit client (CallError ''Recipient is not online or not available.'' None)])
      | Some receiverSocketId \<Rightarrow>
          if receiverSocketId = []
          then (st, [ClientEmit client (CallError ''Recipient is not online or not available.'' None)])
          else
            (case initializeRecording e appointmentId of
               Throws \<Rightarrow> (st, InitializeRecording appointmentId # callFailed client)
             | Returns _ \<Rightarrow>
                 let (h, st1) = setTimeout
                       (RequestTimeout callId client receiver callerId appointmentId isDoctorCalling)
                       (Num 30000) st;
                     st2 = st1\<lparr>callRequests :=
                             AList.update callId
                               \<lparr>rq_timeout = h, rq_caller = callerId, rq_receiver = receiver,
                                rq_appointmentId = appointmentId\<rparr>
                               (callRequests st1)\<rparr>;
                     ring = [EmitTo receiverSocketId
                               (IncomingCall callId callerId appointmentId offer isDoctorCalling),
                             ClientEmit client (CallRinging callId receiver)]
                 in (case (if isPatientCalling then missedCallId else None) of
                       None \<Rightarrow> (st2, InitializeRecording appointmentId # ring)
                     | Some m \<Rightarrow>
                         if m = [] then (st2, InitializeRecording appointmentId # ring)
                         else
                           (case markCallbackUsed e m of
                              Throws \<Rightarrow>
                                (st2, [InitializeRecording appointmentId, MarkCallbackUsed m]
                                      @ callFailed client)
                            | Returns _ \<Rightarrow>
                                (st2, [InitializeRecording appointmentId, MarkCallbackUsed m]
                                      @ ring)))))"

definition inActiveCall :: "gateway \<Rightarrow> user_id \<Rightarrow> bool" where
  "inActiveCall st userId =
     (List.find (\<lambda>(_, call). ac_caller call = userId \<or> ac_receiver call = userId) (activeCalls st)
        \<noteq> None)"

definition handleCall ::
  "env \<Rightarrow> call_id \<Rightarrow> socket_id \<Rightarrow> appointment_id \<Rightarrow> user_id \<Rightarrow> sdp \<Rightarrow> gateway \<Rightarrow>
   gateway \<times> effect list" where
  "handleCall e callId client appointmentId receiver offer st =
     (case map_of (socketToUser st) client of
        None \<Rightarrow>
          (st, [ClientEmit client (CallError ''Authentication required. Please login again.'' None)])
      | Some callerId \<Rightarrow>
          if callerId = []
          then (st, [ClientEmit client
                       (CallError ''Authentication required. Please login again.'' None)])
          else if inActiveCall st callerId
          then (st, [ClientEmit client
                       (CallError ''You are already in another call. Please end it first.'' None)])
          else if inActiveCall st receiver
          then (st, [ClientEmit client (CallError ''Recipient is already in another call.'' None)])
          else
            (case getAppointmentWithUsers e appointmentId of
               Throws \<Rightarrow> (st, callFailed client)
             | Returns None \<Rightarrow> (st, [ClientEmit client (CallError ''Appointment not found.'' None)])
             | Returns (Some appt) \<Rightarrow>
                 (case ap_service appt of
                    None \<Rightarrow> (st, callFailed client)
                  | Some svc \<Rightarrow>
                      let isDoctorCalling = (sv_user_id svc = callerId);
                          isPatientCalling = (ap_user_id appt = callerId)
                      in if \<not> isDoctorCalling \<and> \<not> isPatientCalling
                         then (st, [ClientEmit client
                                      (CallError ''You are not authorized for this appointment.'' None)])
                         else
                           (case (if isDoctorCalling
                                  then validateDoctorCallAccess e appointmentId callerId
                                  else validatePatientCallbackAccess e appointmentId callerId) of
                              Throws \<Rightarrow> (st, callFailed client)
                            | Returns v \<Rightarrow>
                                if \<not> v_success v
                                then (st, [ClientEmit client
                                             (CallError (v_message v) (v_startTime v))])
                                else placeCall e callId client callerId appointmentId receiver offer
                                       isDoctorCalling isPatientCalling
                                       (if isDoctorCalling then None else v_missedCallId v) st))))"

subsection \<open>handleRejectCall\<close>

text \<open>The reason defaults to \<open>'Call rejected'\<close> when the message carries none.\<close>

definition handleRejectCall ::
  "socket_id \<Rightarrow> call_id \<Rightarrow> string option \<Rightarrow> gateway \<Rightarrow> gateway \<times> effect list" where
  "handleRejectCall client callId reason st =
     (case userOfClientEntry st client of
        None \<Rightarrow> (st, [])
      | Some receiverId \<Rightarrow>
          if receiverId = [] then (st, [])
          else
            (case map_of (callRequests st) callId of
               None \<Rightarrow> (st, [])
             | Some callRequest \<Rightarrow>
                 let st1 = clearTimeout (rq_timeout callRequest) st;
                     st2 = st1\<lparr>callRequests := AList.delete callId (callRequests st1)\<rparr>
                 in (st2,
                     whenTruthy (map_of (clients st2) (rq_caller callRequest)) (\<lambda>sid.
                       [EmitTo sid (CallRejected receiverId
                          (case reason of None \<Rightarrow> ''Call rejected'' | Some r \<Rightarrow> r))]))))"

subsection \<open>handleIceCandidate\<close>

text \<open>
  The relay of a negotiation candidate (lines 901-936): it goes to the one socket that
  \<open>clients\<close> holds for the addressee, or nowhere.
\<close>

definition handleIceCandidate ::
  "socket_id \<Rightarrow> call_id \<Rightarrow> candidate \<Rightarrow> user_id \<Rightarrow> gateway \<Rightarrow> gateway \<times> effect list" where
  "handleIceCandidate client callId cand to st =
     (case map_of (socketToUser st) client of
        None \<Rightarrow> (st, [])
      | Some senderId \<Rightarrow>
          if senderId = [] then (st, [])
          else (st, whenTruthy (map_of (clients st) to) (\<lambda>receiverSocketId.
                      [EmitTo receiverSocketId (IceCandidate callId cand senderId)])))"

subsection \<open>The duration budget\<close>

text \<open>
  The code units of a string of ASCII characters, for writing durations down.
\<close>

definition codeUnits :: "string \<Rightarrow> code_unit list" where
  "codeUnits s = map of_char s"

text \<open>
  \<open>parseInt\<close> with no radix, on the code units of its argument. Leading white space
  and line terminators are skipped: they are TAB, LF, VT, FF, CR, the space, the
  no-break space U+00A0, the other space separators U+1680, U+2000 to U+200A, U+202F,
  U+205F and U+3000, the separators U+2028 and U+2029 and the byte order mark U+FEFF.
  Then comes an optional sign, then an optional \<open>0x\<close> or \<open>0X\<close> that selects radix 16,
  then the longest run of digits of the radix. No digit at all gives \<open>NaN\<close>. A value
  below \<open>2 ^ 53\<close> is what JavaScript returns; at \<open>2 ^ 53\<close> and beyond JavaScript
  rounds, and the model says \<open>Huge\<close>.
\<close>

definition isWhiteSpace :: "code_unit \<Rightarrow> bool" where
  "isWhiteSpace u =
     (u = 0x09 \<or> u = 0x0A \<or> u = 0x0B \<or> u = 0x0C \<or> u = 0x0D \<or> u = 0x20 \<or> u = 0xA0 \<or>
      u = 0x1680 \<or> (0x2000 \<le> u \<and> u \<le> 0x200A) \<or> u = 0x2028 \<or> u = 0x2029 \<or>
      u = 0x202F \<or> u = 0x205F \<or> u = 0x3000 \<or> u = 0xFEFF)"

definition digitValue :: "code_unit \<Rightarrow> nat option" where
  "digitValue u =
     (if 48 \<le> u \<and> u \<le> 57 then Some (u - 48)
      else if 97 \<le> u \<and> u \<le> 122 then Some (u - 87)
      else if 65 \<le> u \<and> u \<le> 90 then Some (u - 55)
      else None)"

fun parseDigits :: "nat \<Rightarrow> code_unit list \<Rightarrow> nat option \<Rightarrow> nat option" where
  "parseDigits R [] acc = acc"
| "parseDigits R (c # cs) acc =
     (case digitValue c of
        None \<Rightarrow> acc
      | Some d \<Rightarrow>
          if d < R
          then parseDigits R cs (Some ((case acc of None \<Rightarrow> 0 | Some a \<Rightarrow> a) * R + d))
          else acc)"

definition parseInt :: "code_unit list \<Rightarrow> js_number" where
  "parseInt s =
     (let s1 = dropWhile isWhiteSpace s;
          sign = (if take 1 s1 = codeUnits ''-'' then - 1 else (1::int));
          s2 = (if take 1 s1 = codeUnits ''-'' \<or> take 1 s1 = codeUnits ''+''
                then drop 1 s1 else s1);
          hex = (take 2 s2 = codeUnits ''0x'' \<or> take 2 s2 = codeUnits ''0X'');
          s3 = (if hex then drop 2 s2 else s2)
      in (case parseDigits (if hex then 16 else 10) s3 None of
            None \<Rightarrow> NaN
          | Some n \<Rightarrow> if n < 2 ^ 53 then Num (sign * int n) else Huge))"

text \<open>
  Lines 705-707: \<open>validation.appointment?.service?.duration ? parseInt(...) : 60\<close>.
  The optional chain is \<open>durationMetadata\<close>; the default is taken when a link of the
  chain is missing or the duration is the empty string.
\<close>

definition durationMetadata :: "validation \<Rightarrow> code_unit list option" where
  "durationMetadata v =
     (case v_appointment v of
        None \<Rightarrow> None
      | Some a \<Rightarrow> (case ap_service a of None \<Rightarrow> None | Some s \<Rightarrow> sv_duration s))"

definition durationInMinutes :: "validation \<Rightarrow> js_number" where
  "durationInMinutes v =
     (case durationMetadata v of
        None \<Rightarrow> Num 60
      | Some d \<Rightarrow> if d = [] then Num 60 else parseInt d)"

text \<open>
  Line 713: \<open>(durationInMinutes + 5) * 60 * 1000\<close>. On \<open>NaN\<close> it is \<open>NaN\<close>. On an
  integer it is the exact product as long as that stays below \<open>2 ^ 53\<close> in magnitude,
  since then the sum and both products are exact; otherwise, and on \<open>Huge\<close>, the
  rounded result is of magnitude \<open>2 ^ 53\<close> or more.
\<close>

definition callTimeoutDelay :: "js_number \<Rightarrow> js_number" where
  "callTimeoutDelay d =
     (case d of
        NaN \<Rightarrow> NaN
      | Huge \<Rightarrow> Huge
      | Num m \<Rightarrow> if \<bar>(m + 5) * 60 * 1000\<bar> < 2 ^ 53 then Num ((m + 5) * 60 * 1000) else Huge)"

subsection \<open>handleAnswer\<close>

definition answerFailed :: "socket_id \<Rightarrow> effect list" where
  "answerFailed client =
     [ConsoleError ''Error in handleAnswer:'',
      ClientEmit client (AnswerError ''Failed to answer call. Please try again.'')]"

text \<open>
  Lines 670-674: the request, when there is one, is removed and its timer cleared before
  anything else is checked.
\<close>

definition takeRequest :: "call_id \<Rightarrow> gateway \<Rightarrow> gateway" where
  "takeRequest callId st =
     (case map_of (callRequests st) callId of
        None \<Rightarrow> st
      | Some callRequest \<Rightarrow>
          (clearTimeout (rq_timeout callRequest) st)
            \<lparr>callRequests := AList.delete callId (callRequests st)\<rparr>)"

text \<open>
  Lines 689-730, the branch with the caller's socket at hand. The second
  \<open>activeCalls.set\<close> spreads the entry the first one has just stored. \<open>now\<close> is
  \<open>new Date()\<close>.
\<close>

definition startCall ::
  "env \<Rightarrow> int \<Rightarrow> socket_id \<Rightarrow> call_id \<Rightarrow> user_id \<Rightarrow> user_id \<Rightarrow> appointment_id \<Rightarrow> sdp \<Rightarrow>
   validation \<Rightarrow> gateway \<Rightarrow> gateway \<times> effect list" where
  "startCall e now callerSocketId callId caller receiverId appointmentId answer v st =
     (let recording =
            StartRecording appointmentId callId #
            (case startRecording e appointmentId callId of
               Throws \<Rightarrow> [ConsoleError ''Failed to start recording:'']
             | Returns _ \<Rightarrow> []);
          call = \<lparr>ac_caller = caller, ac_receiver = receiverId, ac_startTime = now,
                  ac_appointmentId = appointmentId, ac_callTimeout = None\<rparr>;
          st1 = st\<lparr>activeCalls := AList.update callId call (activeCalls st)\<rparr>;
          (h, st2) = setTimeout (DurationTimeout callId) (callTimeoutDelay (durationInMinutes v)) st1;
          st3 = st2\<lparr>activeCalls :=
                  AList.update callId (call\<lparr>ac_callTimeout := Some h\<rparr>) (activeCalls st2)\<rparr>
      in (st3,
          recording @ [EmitTo callerSocketId (CallAccepted callId answer receiverId appointmentId)]))"

definition handleAnswer ::
  "env \<Rightarrow> int \<Rightarrow> socket_id \<Rightarrow> call_id \<Rightarrow> user_id \<Rightarrow> appointment_id \<Rightarrow> sdp \<Rightarrow> gateway \<Rightarrow>
   gateway \<times> effect list" where
  "handleAnswer e now client callId caller appointmentId answer st =
     (case userOfClientEntry st client of
        None \<Rightarrow>
          (st, [ClientEmit client (AnswerError ''Authentication required. Please login again.'')])
      | Some receiverId \<Rightarrow>
          if receiverId = []
          then (st, [ClientEmit client
                       (AnswerError ''Authentication required. Please login again.'')])
          else
            let st1 = takeRequest callId st
            in (case validateCallAccess e appointmentId receiverId of
                  Throws \<Rightarrow> (st1, answerFailed client)
                | Returns v \<Rightarrow>
                    if \<not> v_success v then (st1, [ClientEmit client (AnswerError (v_message v))])
                    else
                      (case map_of (clients st1) caller of
                         None \<Rightarrow>
                           (st1, [ClientEmit client (AnswerError ''Caller is no longer available.'')])
                       | Some callerSocketId \<Rightarrow>
                           if callerSocketId = []
                           then (st1, [ClientEmit client
                                         (AnswerError ''Caller is no longer available.'')])
                           else startCall e now callerSocketId callId caller receiverId
                                  appointmentId answer v st1)))"

subsection \<open>handleEndCall, handleCallTimeout and the timers\<close>

text \<open>
  The two recording calls of handleEndCall share one \<open>try\<close>: when the first throws the
  second is not made.
\<close>

definition stopRecordingOnEnd :: "env \<Rightarrow> socket_id \<Rightarrow> appointment_id \<Rightarrow> effect list" where
  "stopRecordingOnEnd e client appointmentId =
     GatewayStopRecording client appointmentId #
     (case handleStopRecording e client appointmentId of
        Throws \<Rightarrow> [ConsoleError ''Failed to stop recording:'']
      | Returns _ \<Rightarrow>
          StopRecording appointmentId #
          (case stopRecording e appointmentId of
             Throws \<Rightarrow> [ConsoleError ''Failed to stop recording:'']
           | Returns _ \<Rightarrow> []))"

text \<open>Lines 767-789 and 808-830: what both handlers do after the recording is stopped.\<close>

definition removeCall :: "call_id \<Rightarrow> active_call \<Rightarrow> event \<Rightarrow> gateway \<Rightarrow> gateway \<times> effect list" where
  "removeCall callId call msg st =
     (let st1 = (case ac_callTimeout call of Some h \<Rightarrow> clearTimeout h st | None \<Rightarrow> st);
          st2 = st1\<lparr>activeCalls := AList.delete callId (activeCalls st1)\<rparr>
      in (st2,
          whenTruthy (map_of (clients st2) (ac_caller call)) (\<lambda>sid. [EmitTo sid msg])
          @ whenTruthy (map_of (clients st2) (ac_receiver call)) (\<lambda>sid. [EmitTo sid msg])))"

definition handleEndCall ::
  "env \<Rightarrow> socket_id \<Rightarrow> call_id \<Rightarrow> appointment_id \<Rightarrow> gateway \<Rightarrow> gateway \<times> effect list" where
  "handleEndCall e client callId appointmentId st =
     (case map_of (activeCalls st) callId of
        None \<Rightarrow> (st, [])
      | Some call \<Rightarrow>
          let r = removeCall callId call
                    (CallEnded callId appointmentId (map_of (socketToUser st) client)
                       ''Call ended by participant'') st
          in (fst r, stopRecordingOnEnd e client appointmentId @ snd r))"




section \<open>The receiving endpoint (SocketService, src/unnamed/part_000)\<close>

text \<open>
  The fields of \<open>SocketService\<close> that the negotiation touches. The peer connection is
  the browser's; of it the model keeps the remote and local description it has applied
  and the candidates it has taken from \<open>addIceCandidate\<close>, in the order of the calls.
  Whether the browser accepts a description or a candidate, and the answer it creates,
  are the parameter \<open>rtc\<close>: a rejected promise is a thrown exception at the \<open>await\<close>.
  The socket is connected, since events arrive on it.

  The handlers are \<open>async\<close>. A handler runs until its next \<open>await\<close> and stops there;
  what is left of it is a continuation that waits, in the field \<open>suspended\<close>, for the
  awaited promise to settle, and other handlers run in the meantime. No caller awaits
  flushCandidates, so its loop goes on by itself, one \<open>await\<close> at a time.
\<close>

record peer_connection =
  pc_remoteDescription :: "sdp option"
  pc_localDescription :: "sdp option"
  pc_candidates :: "candidate list"

record rtc =
  setRemoteDescription_ok :: "sdp \<Rightarrow> bool"
  addIceCandidate_ok :: "candidate \<Rightarrow> bool"
  createAnswer :: "sdp outcome"
  setLocalDescription_ok :: "sdp \<Rightarrow> bool"

text \<open>
  The places where code of the negotiation waits: in the \<open>callAccepted\<close> handler at
  line 151; in answerCall at lines 313, 319 and 320; in the loop of flushCandidates at
  line 421, with the candidate just handed over and the rest of the array the loop
  iterates over. That rest is fixed when the loop starts: the handlers push to the queue
  only while \<open>remoteDescSet\<close> is false, every flush starts after it has been set, and
  nothing modelled here resets it. The \<open>await\<close> of the \<open>iceCandidate\<close> handler
  (line 189) has nothing after it but the \<open>catch\<close>, so it leaves no continuation.
\<close>

datatype continuation =
    AcceptedAfterSetRemote sdp
  | AnswerAfterSetRemote call_id user_id appointment_id sdp
  | AnswerAfterCreateAnswer call_id user_id appointment_id
  | AnswerAfterSetLocal call_id user_id appointment_id sdp
  | FlushAfterAdd candidate "candidate list"

record endpoint =
  peerConnection :: "peer_connection option"
  ep_callId :: "call_id option"
  candidateQueue :: "candidate list"
  remoteDescSet :: bool
  sentAnswers :: "(call_id \<times> user_id \<times> appointment_id \<times> sdp) list"
  suspended :: "continuation list"

text \<open>
  A call of \<open>addIceCandidate\<close>: the peer connection takes the candidate unless the
  browser rejects it. The calls are served in the order they are made.
\<close>

definition addIceCandidate :: "rtc \<Rightarrow> candidate \<Rightarrow> peer_connection \<Rightarrow> peer_connection" where
  "addIceCandidate r c pc =
     (if addIceCandidate_ok r c then pc\<lparr>pc_candidates := pc_candidates pc @ [c]\<rparr> else pc)"

text \<open>
  The head of the \<open>for\<close> loop of flushCandidates (lines 420-424), with the elements
  still to come: the next one is handed to the peer connection and the loop waits; with
  none left the queue is replaced by an empty one.
\<close>

definition flushNext :: "rtc \<Rightarrow> candidate list \<Rightarrow> endpoint \<Rightarrow> endpoint" where
  "flushNext r remaining st =
     (case remaining of
        [] \<Rightarrow> st\<lparr>candidateQueue := []\<rparr>
      | c # rest \<Rightarrow>
          (case peerConnection st of
             None \<Rightarrow> st
           | Some pc \<Rightarrow>
               st\<lparr>peerConnection := Some (addIceCandidate r c pc),
                  suspended := suspended st @ [FlushAfterAdd c rest]\<rparr>))"

definition flushCandidates :: "rtc \<Rightarrow> endpoint \<Rightarrow> endpoint" where
  "flushCandidates r st =
     (case peerConnection st of
        None \<Rightarrow> st
      | Some _ \<Rightarrow> flushNext r (candidateQueue st) st)"

text \<open>The handler of the inbound \<open>iceCandidate\<close> event (lines 183-196).\<close>

definition onIceCandidate :: "rtc \<Rightarrow> candidate \<Rightarrow> endpoint \<Rightarrow> endpoint" where
  "onIceCandidate r c st =
     (if \<not> remoteDescSet st then st\<lparr>candidateQueue := candidateQueue st @ [c]\<rparr>
      else
        (case peerConnection st of
           None \<Rightarrow> st
         | Some pc \<Rightarrow> st\<lparr>peerConnection := Some (addIceCandidate r c pc)\<rparr>))"

text \<open>
  The handler of the inbound \<open>callAccepted\<close> event (lines 147-161), up to its
  \<open>await\<close>.
\<close>

definition onCallAccepted :: "rtc \<Rightarrow> sdp \<Rightarrow> endpoint \<Rightarrow> endpoint" where
  "onCallAccepted r answer st =
     (case peerConnection st of
        None \<Rightarrow> st
      | Some _ \<Rightarrow> st\<lparr>suspended := suspended st @ [AcceptedAfterSetRemote answer]\<rparr>)"

text \<open>
  answerCall (lines 301-338), called when the user takes an incoming call, up to its
  first \<open>await\<close>.
\<close>

definition answerCall ::
  "rtc \<Rightarrow> call_id \<Rightarrow> user_id \<Rightarrow> appointment_id \<Rightarrow> sdp \<Rightarrow> endpoint \<Rightarrow> endpoint" where
  "answerCall r cid callerId appointmentId offer st =
     (case peerConnection st of
        None \<Rightarrow> st
      | Some _ \<Rightarrow>
          st\<lparr>ep_callId := Some cid,
             suspended := suspended st @ [AnswerAfterSetRemote cid callerId appointmentId offer]\<rparr>)"

text \<open>
  The awaited promise of a continuation settles and the code after the \<open>await\<close> runs,
  up to the next \<open>await\<close>. A rejection ends the handler: the \<open>callAccepted\<close> handler
  catches and logs it, answerCall passes it on to its caller, and the loop of
  flushCandidates is left with the queue as it was. A peer connection that is gone
  makes the next use of it throw.
\<close>

definition applyRemoteDescription :: "sdp \<Rightarrow> endpoint \<Rightarrow> endpoint" where
  "applyRemoteDescription d st =
     st\<lparr>peerConnection :=
          map_option (\<lambda>pc. pc\<lparr>pc_remoteDescription := Some d\<rparr>) (peerConnection st)\<rparr>"

definition applyLocalDescription :: "sdp \<Rightarrow> endpoint \<Rightarrow> endpoint" where
  "applyLocalDescription d st =
     st\<lparr>peerConnection :=
          map_option (\<lambda>pc. pc\<lparr>pc_localDescription := Some d\<rparr>) (peerConnection st)\<rparr>"

fun resume :: "rtc \<Rightarrow> continuation \<Rightarrow> endpoint \<Rightarrow> endpoint" where
  "resume r (AcceptedAfterSetRemote answer) st =
     (if \<not> setRemoteDescription_ok r answer then st
      else flushCandidates r ((applyRemoteDescription answer st)\<lparr>remoteDescSet := True\<rparr>))"
| "resume r (AnswerAfterSetRemote cid callerId appointmentId offer) st =
     (if \<not> setRemoteDescription_ok r offer then st
      else
        let st1 = (applyRemoteDescription offer st)\<lparr>remoteDescSet := True\<rparr>
        in (case peerConnection st1 of
              None \<Rightarrow> st1
            | Some _ \<Rightarrow>
                st1\<lparr>suspended :=
                      suspended st1 @ [AnswerAfterCreateAnswer cid callerId appointmentId]\<rparr>))"
| "resume r (AnswerAfterCreateAnswer cid callerId appointmentId) st =
     (case createAnswer r of
        Throws \<Rightarrow> st
      | Returns answer \<Rightarrow>
          (case peerConnection st of
             None \<Rightarrow> st
           | Some _ \<Rightarrow>
               st\<lparr>suspended :=
                    suspended st @ [AnswerAfterSetLocal cid callerId appointmentId answer]\<rparr>))"
| "resume r (AnswerAfterSetLocal cid callerId appointmentId answer) st =
     (if \<not> setLocalDescription_ok r answer then st
      else
        flushCandidates r
          ((applyLocalDescription answer st)
             \<lparr>sentAnswers := sentAnswers st @ [(cid, callerId, appointmentId, answer)]\<rparr>))"
| "resume r (FlushAfterAdd c rest) st =
     (if \<not> addIceCandidate_ok r c then st else flushNext r rest st)"

text \<open>
  What happens at an endpoint during the negotiation: an inbound event arrives, the user
  takes a call, or the promise that the continuation at some position of \<open>suspended\<close>
  waits for settles. A run of such events starts from the state createPeerConnection
  leaves behind.
\<close>

datatype endpoint_event =
    IceCandidateEv candidate
  | CallAcceptedEv sdp
  | AnswerCallEv call_id user_id appointment_id sdp
  | Settled nat

fun endpointStep :: "rtc \<Rightarrow> endpoint_event \<Rightarrow> endpoint \<Rightarrow> endpoint" where
  "endpointStep r (IceCandidateEv c) st = onIceCandidate r c st"
| "endpointStep r (CallAcceptedEv answer) st = onCallAccepted r answer st"
| "endpointStep r (AnswerCallEv cid callerId appointmentId offer) st =
     answerCall r cid callerId appointmentId offer st"
| "endpointStep r (Settled i) st =
     (if i < length (suspended st)
      then resume r (suspended st ! i)
             (st\<lparr>suspended := take i (suspended st) @ drop (Suc i) (suspended st)\<rparr>)
      else st)"

definition runEndpoint :: "rtc \<Rightarrow> endpoint_event list \<Rightarrow> endpoint \<Rightarrow> endpoint" where
  "runEndpoint r evs st = fold (endpointStep r) evs st"

definition freshEndpoint :: endpoint where
  "freshEndpoint =
     \<lparr>peerConnection =
        Some \<lparr>pc_remoteDescription = None, pc_localDescription = None, pc_candidates = []\<rparr>,
      ep_callId = None, candidateQueue = [], remoteDescSet = False, sentAnswers = [],
      suspended = []\<rparr>"

section \<open>Vocabulary of the properties\<close>


text \<open>Running a handler a second time, right after the first.\<close>

definition twice :: "(gateway \<Rightarrow> gateway \<times> effect list) \<Rightarrow> gateway \<Rightarrow> gateway \<times> effect list" where
  "twice f st = (case f st of (st1, out1) \<Rightarrow> case f st1 of (st2, out2) \<Rightarrow> (st2, out1 @ out2))"

text \<open>
  The gateway as its constructor leaves it, and collaborators that let everything
  through: the token is the user id, every appointment has the service of \<open>doctor\<close>
  with the given duration, and no call throws.
\<close>

definition emptyGateway :: gateway where
  "emptyGateway =
     \<lparr>clients = [], socketToUser = [], activeCalls = [], callRequests = [], timers = [],
      nextTimer = 0\<rparr>"

definition grantedWith :: "string option \<Rightarrow> validation" where
  "grantedWith d =
     \<lparr>v_success = True, v_message = [], v_startTime = None,
      v_appointment =
        Some \<lparr>ap_user_id = ''patient'',
              ap_service =
                Some \<lparr>sv_user_id = ''doctor'', sv_duration = map_option codeUnits d\<rparr>\<rparr>,
      v_missedCallId = None\<rparr>"

definition permissiveEnv :: "string option \<Rightarrow> env" where
  "permissiveEnv d =
     \<lparr>jwt_verify = (\<lambda>token. Returns (Some token)),
      getAppointmentWithUsers =
        (\<lambda>_. Returns (v_appointment (grantedWith d))),
      validateDoctorCallAccess = (\<lambda>_ _. Returns (grantedWith d)),
      validatePatientCallbackAccess = (\<lambda>_ _. Returns (grantedWith d)),
      validateCallAccess = (\<lambda>_ _. Returns (grantedWith d)),
      initializeRecording = (\<lambda>_. Returns ()),
      startRecording = (\<lambda>_ _. Returns ()),
      handleStopRecording = (\<lambda>_ _. Returns ()),
      stopRecording = (\<lambda>_. Returns ()),
      markCallbackUsed = (\<lambda>_. Returns ())\<rparr>"

text \<open>Three users, each connected on one socket.\<close>

definition threeOnline :: gateway where
  "threeOnline =
     fst (handleConnection (permissiveEnv None) ''s3'' (Some ''patient2'') None
       (fst (handleConnection (permissiveEnv None) ''s2'' (Some ''patient'') None
          (fst (handleConnection (permissiveEnv None) ''s1'' (Some ''doctor'') None
             emptyGateway)))))"

text \<open>
  The same collaborators with a recording service whose start fails, and with one whose
  stop fails.
\<close>

definition startRecordingDown :: "string option \<Rightarrow> env" where
  "startRecordingDown d = (permissiveEnv d)\<lparr>startRecording := (\<lambda>_ _. Throws)\<rparr>"

definition stopRecordingDown :: "string option \<Rightarrow> env" where
  "stopRecordingDown d = (permissiveEnv d)\<lparr>stopRecording := (\<lambda>_. Throws)\<rparr>"

text \<open>
  States reached from \<open>threeOnline\<close>: the doctor rings the patient; the doctor rings a
  second patient as well; both callees answer; the first patient alone answers; the
  doctor connects on a second socket.
\<close>

definition ringingPatient :: gateway where
  "ringingPatient =
     fst (handleCall (permissiveEnv (Some ''30'')) ''c1'' ''s1'' ''ap'' ''patient'' ''offer''
            threeOnline)"

definition ringingBoth :: gateway where
  "ringingBoth =
     fst (handleCall (permissiveEnv (Some ''30'')) ''c2'' ''s1'' ''ap2'' ''patient2'' ''offer''
            ringingPatient)"

definition bothAnswered :: gateway where
  "bothAnswered =
     fst (handleAnswer (permissiveEnv (Some ''30'')) 2000 ''s3'' ''c2'' ''doctor'' ''ap2'' ''answer''
       (fst (handleAnswer (permissiveEnv (Some ''30'')) 1000 ''s2'' ''c1'' ''doctor'' ''ap''
               ''answer'' ringingBoth)))"

definition doctorPatientCall :: gateway where
  "doctorPatientCall =
     fst (handleAnswer (permissiveEnv (Some ''30'')) 1000 ''s2'' ''c1'' ''doctor'' ''ap'' ''answer''
            ringingPatient)"

definition doctorTwice :: gateway where
  "doctorTwice =
     fst (handleConnection (permissiveEnv None) ''s9'' (Some ''doctor'') None threeOnline)"


text \<open>
  A browser that accepts every description and candidate, and one that rejects the
  candidate \<open>k2\<close>.
\<close>

definition acceptingRtc :: rtc where
  "acceptingRtc =
     \<lparr>setRemoteDescription_ok = (\<lambda>_. True), addIceCandidate_ok = (\<lambda>_. True),
      createAnswer = Returns ''answer'', setLocalDescription_ok = (\<lambda>_. True)\<rparr>"

definition pickyRtc :: rtc where
  "pickyRtc = acceptingRtc\<lparr>addIceCandidate_ok := (\<lambda>c. c \<noteq> ''k2'')\<rparr>"

text \<open>
  Runs at an endpoint. Three candidates arrive, then \<open>callAccepted\<close>, and every promise
  settles as soon as it is awaited; the same run followed by a second \<open>callAccepted\<close>;
  and a callee's run in which \<open>k2\<close> arrives while answerCall waits for createAnswer.
\<close>

definition acceptedRun :: "endpoint_event list" where
  "acceptedRun =
     [IceCandidateEv ''k1'', IceCandidateEv ''k2'', IceCandidateEv ''k3'', CallAcceptedEv ''sdp'',
      Settled 0, Settled 0, Settled 0]"

definition acceptedAgainRun :: "endpoint_event list" where
  "acceptedAgainRun = acceptedRun @ [CallAcceptedEv ''sdp'', Settled 0, Settled 0, Settled 0]"

definition answeredRun :: "endpoint_event list" where
  "answeredRun =
     [IceCandidateEv ''k1'', AnswerCallEv ''c1'' ''doctor'' ''ap'' ''offer'', Settled 0,
      IceCandidateEv ''k2'', Settled 0, Settled 0, Settled 0]"

section \<open>Properties\<close>

subsection \<open>The example states, evaluated\<close>

lemmas eval_defs =
  handleCall_def placeCall_def handleAnswer_def startCall_def takeRequest_def
  handleDisconnect_def cascadeOnDisconnect_def endCallOnDisconnect_def
  cancelRequestOnDisconnect_def handleEndCall_def removeCall_def stopRecordingOnEnd_def
  handleRejectCall_def handleConnection_def handleIceCandidate_def
  permissiveEnv_def startRecordingDown_def stopRecordingDown_def grantedWith_def
  inActiveCall_def userOfClientEntry_def
  setTimeout_def clearTimeout_def nodeTimerDelay_def truthy_def whenTruthy_def Let_def
  durationInMinutes_def durationMetadata_def callTimeoutDelay_def
  findSocketIdByUserId_def findUserBySocketId_def

lemmas parse_defs = parseInt_def isWhiteSpace_def digitValue_def codeUnits_def

lemma codeUnits_Nil [simp]: "codeUnits s = [] \<longleftrightarrow> s = []"
  by (simp add: codeUnits_def)

lemma parseInt_30: "parseInt (codeUnits ''30'') = Num 30"
  by (simp add: parse_defs)

lemma parseInt_abc: "parseInt (codeUnits ''abc'') = NaN"
  by (simp add: parse_defs)

lemma parseInt_examples:
  "parseInt (codeUnits ''45 minutes'') = Num 45"
  "parseInt (codeUnits '' -7'') = Num (- 7)"
  "parseInt (codeUnits ''1.5'') = Num 1"
  "parseInt (codeUnits ''0x1F'') = Num 31"
  "parseInt (codeUnits ''minutes: 45'') = NaN"
  "parseInt (0xA0 # codeUnits ''30'') = Num 30"
  "parseInt (0xFEFF # 0x2003 # codeUnits ''30'') = Num 30"
  "parseInt (codeUnits ''9007199254740991'') = Num 9007199254740991"
  "parseInt (codeUnits ''9007199254740993'') = Huge"
  by (simp_all add: parse_defs)

lemma threeOnline_eq:
  "threeOnline =
     \<lparr>clients = [(''doctor'', ''s1''), (''patient'', ''s2''), (''patient2'', ''s3'')],
      socketToUser = [(''s1'', ''doctor''), (''s2'', ''patient''), (''s3'', ''patient2'')],
      activeCalls = [], callRequests = [], timers = [], nextTimer = 0\<rparr>"
  by (simp add: threeOnline_def handleConnection_def permissiveEnv_def emptyGateway_def truthy_def)

lemma ringingPatient_eq:
  "ringingPatient =
     \<lparr>clients = [(''doctor'', ''s1''), (''patient'', ''s2''), (''patient2'', ''s3'')],
      socketToUser = [(''s1'', ''doctor''), (''s2'', ''patient''), (''s3'', ''patient2'')],
      activeCalls = [],
      callRequests =
        [(''c1'', \<lparr>rq_timeout = 0, rq_caller = ''doctor'', rq_receiver = ''patient'',
                   rq_appointmentId = ''ap''\<rparr>)],
      timers = [(0, 30000, RequestTimeout ''c1'' ''s1'' ''patient'' ''doctor'' ''ap'' True)],
      nextTimer = 1\<rparr>"
  by (simp add: ringingPatient_def threeOnline_eq eval_defs)

lemma ringingBoth_eq:
  "ringingBoth =
     \<lparr>clients = [(''doctor'', ''s1''), (''patient'', ''s2''), (''patient2'', ''s3'')],
      socketToUser = [(''s1'', ''doctor''), (''s2'', ''patient''), (''s3'', ''patient2'')],
      activeCalls = [],
      callRequests =
        [(''c1'', \<lparr>rq_timeout = 0, rq_caller = ''doctor'', rq_receiver = ''patient'',
                   rq_appointmentId = ''ap''\<rparr>),
         (''c2'', \<lparr>rq_timeout = 1, rq_caller = ''doctor'', rq_receiver = ''patient2'',
                   rq_appointmentId = ''ap2''\<rparr>)],
      timers = [(0, 30000, RequestTimeout ''c1'' ''s1'' ''patient'' ''doctor'' ''ap'' True),
                (1, 30000, RequestTimeout ''c2'' ''s1'' ''patient2'' ''doctor'' ''ap2'' True)],
      nextTimer = 2\<rparr>"
  by (simp add: ringingBoth_def ringingPatient_eq eval_defs)

lemma bothAnswered_eq:
  "bothAnswered =
     \<lparr>clients = [(''doctor'', ''s1''), (''patient'', ''s2''), (''patient2'', ''s3'')],
      socketToUser = [(''s1'', ''doctor''), (''s2'', ''patient''), (''s3'', ''patient2'')],
      activeCalls =
        [(''c1'', \<lparr>ac_caller = ''doctor'', ac_receiver = ''patient'', ac_startTime = 1000,
                   ac_appointmentId = ''ap'', ac_callTimeout = Some 2\<rparr>),
         (''c2'', \<lparr>ac_caller = ''doctor'', ac_receiver = ''patient2'', ac_startTime = 2000,
                   ac_appointmentId = ''ap2'', ac_callTimeout = Some 3\<rparr>)],
      callRequests = [],
      timers = [(2, 2100000, DurationTimeout ''c1''), (3, 2100000, DurationTimeout ''c2'')],
      nextTimer = 4\<rparr>"
  by (simp add: bothAnswered_def ringingBoth_eq eval_defs parseInt_30)

lemma doctorPatientCall_eq:
  "doctorPatientCall =
     \<lparr>clients = [(''doctor'', ''s1''), (''patient'', ''s2''), (''patient2'', ''s3'')],
      socketToUser = [(''s1'', ''doctor''), (''s2'', ''patient''), (''s3'', ''patient2'')],
      activeCalls =
        [(''c1'', \<lparr>ac_caller = ''doctor'', ac_receiver = ''patient'', ac_startTime = 1000,
                   ac_appointmentId = ''ap'', ac_callTimeout = Some 1\<rparr>)],
      callRequests = [],
      timers = [(1, 2100000, DurationTimeout ''c1'')],
      nextTimer = 2\<rparr>"
  by (simp add: doctorPatientCall_def ringingPatient_eq eval_defs parseInt_30)

lemma doctorTwice_eq:
  "doctorTwice =
     \<lparr>clients = [(''doctor'', ''s9''), (''patient'', ''s2''), (''patient2'', ''s3'')],
      socketToUser = [(''s1'', ''doctor''), (''s2'', ''patient''), (''s3'', ''patient2''),
                      (''s9'', ''doctor'')],
      activeCalls = [], callRequests = [], timers = [], nextTimer = 0\<rparr>"
  by (simp add: doctorTwice_def threeOnline_eq eval_defs)


subsection \<open>The connection registry\<close>

text \<open>
  Claim C5, as the code has it. A successful handleConnection makes the new socket the
  user's one entry in \<open>clients\<close> and enters it in the reverse index; the reverse-index
  entries of all other sockets and the \<open>clients\<close> entries of all other users stay as
  they were. A lookup of a user yields the user's entry in \<open>clients\<close>, at most one
  socket, and the relay of a negotiation candidate emits to that socket and to no
  other: after the registration, to the socket just registered.
\<close>

theorem register_replaces_relay_socket:
  assumes token: "(if truthy authToken then authToken else queryToken) = Some token" "token \<noteq> []"
    and sub: "jwt_verify e token = Returns (Some userId)" "userId \<noteq> []"
  shows "findSocketIdByUserId (fst (handleConnection e client authToken queryToken st)) userId
           = Some client \<and>
         findUserBySocketId (fst (handleConnection e client authToken queryToken st)) client
           = Some userId \<and>
         (\<forall>s. s \<noteq> client \<longrightarrow>
            findUserBySocketId (fst (handleConnection e client authToken queryToken st)) s
              = findUserBySocketId st s) \<and>
         (\<forall>u. u \<noteq> userId \<longrightarrow>
            findSocketIdByUserId (fst (handleConnection e client authToken queryToken st)) u
              = findSocketIdByUserId st u) \<and>
         (\<forall>st2 sender senderId cid cand to.
            findUserBySocketId st2 sender = Some senderId \<and> senderId \<noteq> [] \<longrightarrow>
            handleIceCandidate sender cid cand to st2 =
              (st2,
               case findSocketIdByUserId st2 to of
                 None \<Rightarrow> []
               | Some sid \<Rightarrow>
                   if sid = [] then [] else [EmitTo sid (IceCandidate cid cand senderId)])) \<and>
         (\<forall>sender senderId cid cand.
            findUserBySocketId (fst (handleConnection e client authToken queryToken st)) sender
              = Some senderId \<and> senderId \<noteq> [] \<and> client \<noteq> [] \<longrightarrow>
            snd (handleIceCandidate sender cid cand userId
                   (fst (handleConnection e client authToken queryToken st))) =
              [EmitTo client (IceCandidate cid cand senderId)])"
proof -
  let ?st' = "fst (handleConnection e client authToken queryToken st)"
  have st': "?st' = st\<lparr>clients := AList.update userId client (clients st),
                         socketToUser := AList.update client userId (socketToUser st)\<rparr>"
    using assms by (simp add: handleConnection_def)
  have r1: "findSocketIdByUserId ?st' userId = Some client"
    by (simp add: st' findSocketIdByUserId_def AList.update_conv')
  have r2: "findUserBySocketId ?st' client = Some userId"
    by (simp add: st' findUserBySocketId_def AList.update_conv')
  have r3: "findUserBySocketId ?st' s = findUserBySocketId st s" if "s \<noteq> client" for s
    using that by (simp add: st' findUserBySocketId_def AList.update_conv')
  have r4: "findSocketIdByUserId ?st' u = findSocketIdByUserId st u" if "u \<noteq> userId" for u
    using that by (simp add: st' findSocketIdByUserId_def AList.update_conv')
  have relay: "handleIceCandidate sender cid cand to st2 =
      (st2,
       case findSocketIdByUserId st2 to of
         None \<Rightarrow> []
       | Some sid \<Rightarrow> if sid = [] then [] else [EmitTo sid (IceCandidate cid cand senderId)])"
    if "findUserBySocketId st2 sender = Some senderId \<and> senderId \<noteq> []"
    for st2 sender senderId cid cand to
    using that
    by (simp add: handleIceCandidate_def findUserBySocketId_def findSocketIdByUserId_def
        whenTruthy_def)
  have one: "snd (handleIceCandidate sender cid cand userId ?st') =
      [EmitTo client (IceCandidate cid cand senderId)]"
    if h: "findUserBySocketId ?st' sender = Some senderId \<and> senderId \<noteq> [] \<and> client \<noteq> []"
    for sender senderId cid cand
  proof -
    from h have "findUserBySocketId ?st' sender = Some senderId \<and> senderId \<noteq> []"
      by simp
    from relay [OF this, of cid cand userId] h show ?thesis
      by (simp only: r1 snd_conv option.case if_False)
  qed
  show ?thesis
    apply (intro conjI allI impI)
         apply (rule r1)
        apply (rule r2)
       apply (erule r3)
      apply (erule r4)
     apply (erule relay)
    apply (erule one)
    done
qed

theorem register_replaces_relay_socket_witness:
  "findSocketIdByUserId doctorTwice ''doctor'' = Some ''s9'' \<and>
   findUserBySocketId doctorTwice ''s9'' = Some ''doctor'' \<and>
   findUserBySocketId doctorTwice ''s1'' = findUserBySocketId threeOnline ''s1'' \<and>
   findSocketIdByUserId doctorTwice ''patient'' = findSocketIdByUserId threeOnline ''patient'' \<and>
   snd (handleIceCandidate ''s2'' ''c1'' ''k1'' ''doctor'' doctorTwice) =
     [EmitTo ''s9'' (IceCandidate ''c1'' ''k1'' ''patient'')]"
proof -
  have token: "(if truthy (Some ''doctor'') then Some ''doctor'' else None) = Some ''doctor''"
    "''doctor'' \<noteq> []"
    by (simp_all add: truthy_def)
  have sub: "jwt_verify (permissiveEnv None) ''doctor'' = Returns (Some ''doctor'')"
    by (simp add: permissiveEnv_def)
  note t = register_replaces_relay_socket
    [OF token sub token(2), of "''s9''" threeOnline, folded doctorTwice_def]
  have sender: "findUserBySocketId doctorTwice ''s2'' = Some ''patient'' \<and> ''patient'' \<noteq> [] \<and>
                ''s9'' \<noteq> []"
    by (simp add: doctorTwice_eq findUserBySocketId_def)
  have c1: "findSocketIdByUserId doctorTwice ''doctor'' = Some ''s9''"
    by (rule t [THEN conjunct1])
  have c2: "findUserBySocketId doctorTwice ''s9'' = Some ''doctor''"
    by (rule t [THEN conjunct2, THEN conjunct1])
  have c3: "findUserBySocketId doctorTwice ''s1'' = findUserBySocketId threeOnline ''s1''"
    by (rule t [THEN conjunct2, THEN conjunct2, THEN conjunct1, rule_format]) simp
  have c4: "findSocketIdByUserId doctorTwice ''patient'' = findSocketIdByUserId threeOnline ''patient''"
    by (rule t [THEN conjunct2, THEN conjunct2, THEN conjunct2, THEN conjunct1, rule_format]) simp
  have c6: "snd (handleIceCandidate ''s2'' ''c1'' ''k1'' ''doctor'' doctorTwice) =
     [EmitTo ''s9'' (IceCandidate ''c1'' ''k1'' ''patient'')]"
    by (rule t [THEN conjunct2, THEN conjunct2, THEN conjunct2, THEN conjunct2, THEN conjunct2,
                rule_format, OF sender])
  from c1 c2 c3 c4 c6 show ?thesis by (intro conjI)
qed

text \<open>
  The claim as stated fails: after the doctor has connected on \<open>s1\<close> and then on
  \<open>s9\<close>, both sockets are live in the reverse index, but the lookup of the doctor
  yields \<open>s9\<close> alone.
\<close>

theorem multi_device_counterexample:
  "findUserBySocketId doctorTwice ''s1'' = Some ''doctor'' \<and>
   findUserBySocketId doctorTwice ''s9'' = Some ''doctor'' \<and>
   findSocketIdByUserId doctorTwice ''doctor'' = Some ''s9'' \<and>
   findSocketIdByUserId doctorTwice ''doctor'' \<noteq> Some ''s1''"
  by (simp add: doctorTwice_eq findUserBySocketId_def findSocketIdByUserId_def)

text \<open>
  Claim C3. When the patient's only socket disconnects, handleDisconnect removes the
  user from \<open>clients\<close> and emits nothing at all: no \<open>userStatusChange\<close> with status
  offline goes out, whereas handleConnection had broadcast the status online.
\<close>

theorem last_disconnect_emits_no_presence_event:
  "snd (handleConnection (permissiveEnv None) ''s2'' (Some ''patient'') None emptyGateway) =
     [Broadcast (UserStatusChange ''patient'' ''online'')] \<and>
   handleDisconnect ''s2'' threeOnline =
     (\<lparr>clients = [(''doctor'', ''s1''), (''patient2'', ''s3'')],
       socketToUser = [(''s1'', ''doctor''), (''s3'', ''patient2'')],
       activeCalls = [], callRequests = [], timers = [], nextTimer = 0\<rparr>,
      [])"
  by (simp add: threeOnline_eq emptyGateway_def eval_defs)

subsection \<open>Initiating a call\<close>

lemma inActiveCall_iff:
  "inActiveCall st u \<longleftrightarrow>
     (\<exists>entry \<in> set (activeCalls st). ac_caller (snd entry) = u \<or> ac_receiver (snd entry) = u)"
  by (simp add: inActiveCall_def find_None_iff case_prod_unfold Bex_def)

text \<open>
  Claim C1, as the code has it. handleCall leaves the state as it is and answers the
  caller with the \<open>callError\<close> of line 443, "You are already in another call. Please end
  it first.", whenever the caller is a party of an active call, and with the
  \<open>callError\<close> of line 455, "Recipient is already in another call.", whenever the
  caller is not but the callee is.
\<close>

theorem initiate_refused_during_active_call:
  assumes caller: "findUserBySocketId st client = Some callerId" "callerId \<noteq> []"
  shows "((\<exists>entry \<in> set (activeCalls st).
             ac_caller (snd entry) = callerId \<or> ac_receiver (snd entry) = callerId) \<longrightarrow>
          handleCall e callId client appointmentId receiver offer st =
            (st, [ClientEmit client
                    (CallError ''You are already in another call. Please end it first.'' None)])) \<and>
         (\<not> (\<exists>entry \<in> set (activeCalls st).
               ac_caller (snd entry) = callerId \<or> ac_receiver (snd entry) = callerId) \<and>
          (\<exists>entry \<in> set (activeCalls st).
             ac_caller (snd entry) = receiver \<or> ac_receiver (snd entry) = receiver) \<longrightarrow>
          handleCall e callId client appointmentId receiver offer st =
            (st, [ClientEmit client (CallError ''Recipient is already in another call.'' None)]))"
  using caller
  by (simp add: handleCall_def findUserBySocketId_def flip: inActiveCall_iff)

theorem initiate_refused_during_active_call_witness:
  "handleCall (permissiveEnv None) ''c9'' ''s1'' ''ap2'' ''patient2'' ''offer'' doctorPatientCall =
     (doctorPatientCall,
      [ClientEmit ''s1''
         (CallError ''You are already in another call. Please end it first.'' None)]) \<and>
   handleCall (permissiveEnv None) ''c9'' ''s3'' ''ap'' ''patient'' ''offer'' doctorPatientCall =
     (doctorPatientCall,
      [ClientEmit ''s3'' (CallError ''Recipient is already in another call.'' None)])"
proof -
  let ?call = "\<lparr>ac_caller = ''doctor'', ac_receiver = ''patient'', ac_startTime = 1000,
                 ac_appointmentId = ''ap'', ac_callTimeout = Some 1\<rparr>"
  have calls: "activeCalls doctorPatientCall = [(''c1'', ?call)]"
    by (simp add: doctorPatientCall_eq)
  have doctor: "findUserBySocketId doctorPatientCall ''s1'' = Some ''doctor''" "''doctor'' \<noteq> []"
    by (simp_all add: doctorPatientCall_eq findUserBySocketId_def)
  have other: "findUserBySocketId doctorPatientCall ''s3'' = Some ''patient2''" "''patient2'' \<noteq> []"
    by (simp_all add: doctorPatientCall_eq findUserBySocketId_def)
  have busy_caller: "\<exists>entry \<in> set (activeCalls doctorPatientCall).
      ac_caller (snd entry) = ''doctor'' \<or> ac_receiver (snd entry) = ''doctor''"
    by (simp add: calls)
  have free_caller: "\<not> (\<exists>entry \<in> set (activeCalls doctorPatientCall).
      ac_caller (snd entry) = ''patient2'' \<or> ac_receiver (snd entry) = ''patient2'')"
    by (simp add: calls)
  have busy_callee: "\<exists>entry \<in> set (activeCalls doctorPatientCall).
      ac_caller (snd entry) = ''patient'' \<or> ac_receiver (snd entry) = ''patient''"
    by (simp add: calls)
  from initiate_refused_during_active_call [OF doctor] busy_caller
  have a: "handleCall (permissiveEnv None) ''c9'' ''s1'' ''ap2'' ''patient2'' ''offer''
             doctorPatientCall =
     (doctorPatientCall,
      [ClientEmit ''s1''
         (CallError ''You are already in another call. Please end it first.'' None)])"
    by blast
  from initiate_refused_during_active_call [OF other] free_caller busy_callee
  have b: "handleCall (permissiveEnv None) ''c9'' ''s3'' ''ap'' ''patient'' ''offer''
             doctorPatientCall =
     (doctorPatientCall,
      [ClientEmit ''s3'' (CallError ''Recipient is already in another call.'' None)])"
    by blast
  from a b show ?thesis by simp
qed

text \<open>
  The claim as stated fails: a pending request does not block handleCall. The doctor,
  who owns the pending request \<open>c1\<close>, rings a second patient and owns two requests;
  after both callees have answered the doctor is the caller of two active calls.
\<close>

theorem exclusivity_counterexample:
  "map (rq_caller \<circ> snd) (callRequests ringingPatient) = [''doctor''] \<and>
   snd (handleCall (permissiveEnv (Some ''30'')) ''c2'' ''s1'' ''ap2'' ''patient2'' ''offer''
          ringingPatient) =
     [InitializeRecording ''ap2'',
      EmitTo ''s3'' (IncomingCall ''c2'' ''doctor'' ''ap2'' ''offer'' True),
      ClientEmit ''s1'' (CallRinging ''c2'' ''patient2'')] \<and>
   map (rq_caller \<circ> snd) (callRequests ringingBoth) = [''doctor'', ''doctor''] \<and>
   map (ac_caller \<circ> snd) (activeCalls bothAnswered) = [''doctor'', ''doctor'']"
  by (simp add: ringingBoth_eq bothAnswered_eq) (simp add: ringingPatient_eq eval_defs)

subsection \<open>Accepting a call\<close>

lemma clearTimeout_fields [simp]:
  "clients (clearTimeout h st) = clients st"
  "socketToUser (clearTimeout h st) = socketToUser st"
  "activeCalls (clearTimeout h st) = activeCalls st"
  "callRequests (clearTimeout h st) = callRequests st"
  "nextTimer (clearTimeout h st) = nextTimer st"
  "timers (clearTimeout h st) = AList.delete h (timers st)"
  by (simp_all add: clearTimeout_def)

lemma startCall_result:
  "startCall e now sid callId caller receiverId appointmentId answer v st =
     (st\<lparr>activeCalls :=
           AList.update callId
             \<lparr>ac_caller = caller, ac_receiver = receiverId, ac_startTime = now,
              ac_appointmentId = appointmentId, ac_callTimeout = Some (nextTimer st)\<rparr>
             (activeCalls st),
         timers := timers st @ [(nextTimer st,
                                 nodeTimerDelay (callTimeoutDelay (durationInMinutes v)),
                                 DurationTimeout callId)],
         nextTimer := Suc (nextTimer st)\<rparr>,
      StartRecording appointmentId callId #
      (case startRecording e appointmentId callId of
         Throws \<Rightarrow> [ConsoleError ''Failed to start recording:'']
       | Returns _ \<Rightarrow> [])
      @ [EmitTo sid (CallAccepted callId answer receiverId appointmentId)])"
  by (simp add: startCall_def setTimeout_def Let_def)

lemma takeRequest_fields [simp]:
  "clients (takeRequest callId st) = clients st"
  "socketToUser (takeRequest callId st) = socketToUser st"
  "activeCalls (takeRequest callId st) = activeCalls st"
  "nextTimer (takeRequest callId st) = nextTimer st"
  "callRequests (takeRequest callId st) = AList.delete callId (callRequests st)"
  by (simp_all add: takeRequest_def AList.delete_id map_of_eq_None_iff split: option.splits)


lemma budget_default: "nodeTimerDelay (callTimeoutDelay (Num 60)) = (60 + 5) * 60 * 1000"
  by (simp add: callTimeoutDelay_def nodeTimerDelay_def)

lemma kept_delay:
  fixes r :: int
  assumes "1 \<le> r" "r \<le> 2 ^ 31 - 1"
  shows "nodeTimerDelay (if \<bar>r\<bar> < 2 ^ 53 then Num r else Huge) = r"
proof -
  from assms have "\<bar>r\<bar> < 2 ^ 53" by simp
  with assms show ?thesis by (simp add: nodeTimerDelay_def)
qed

lemma budget_in_range:
  assumes "1 \<le> (n + 5) * 60 * 1000" "(n + 5) * 60 * 1000 \<le> 2 ^ 31 - 1"
  shows "nodeTimerDelay (callTimeoutDelay (Num n)) = (n + 5) * 60 * 1000"
  unfolding callTimeoutDelay_def js_number.case by (rule kept_delay [OF assms])

text \<open>
  An accept that gets through to the caller: what handleAnswer returns.
\<close>

lemma handleAnswer_accepts:
  assumes "userOfClientEntry st client = Some receiverId" "receiverId \<noteq> []"
    and "validateCallAccess e appointmentId receiverId = Returns v" "v_success v"
    and "map_of (clients st) caller = Some sid" "sid \<noteq> []"
  shows "handleAnswer e now client callId caller appointmentId answer st =
           startCall e now sid callId caller receiverId appointmentId answer v
             (takeRequest callId st)"
  using assms by (simp add: handleAnswer_def Let_def)

text \<open>
  Claim C2. An accept for a call id that has no pending request is not refused: with
  the caller online and access granted, handleAnswer stores an active call, starts its
  duration timer and sends \<open>callAccepted\<close> to the caller.
\<close>

theorem accept_without_request_starts_call:
  "map_of (callRequests threeOnline) ''c1'' = None \<and>
   handleAnswer (permissiveEnv (Some ''30'')) 1000 ''s2'' ''c1'' ''doctor'' ''ap'' ''answer''
     threeOnline =
     (\<lparr>clients = [(''doctor'', ''s1''), (''patient'', ''s2''), (''patient2'', ''s3'')],
       socketToUser = [(''s1'', ''doctor''), (''s2'', ''patient''), (''s3'', ''patient2'')],
       activeCalls =
         [(''c1'', \<lparr>ac_caller = ''doctor'', ac_receiver = ''patient'', ac_startTime = 1000,
                    ac_appointmentId = ''ap'', ac_callTimeout = Some 0\<rparr>)],
       callRequests = [],
       timers = [(0, 2100000, DurationTimeout ''c1'')],
       nextTimer = 1\<rparr>,
      [StartRecording ''ap'' ''c1'',
       EmitTo ''s1'' (CallAccepted ''c1'' ''answer'' ''patient'' ''ap'')])"
  by (simp add: threeOnline_eq eval_defs parseInt_30)

text \<open>
  Claim C6, as the code has it. An accepted call gets a duration timer; Node runs it
  after \<open>(d + 5) * 60 * 1000\<close> milliseconds, where \<open>d\<close> is 60 when the duration
  metadata is absent or the empty string, and otherwise the integer that \<open>parseInt\<close>
  reads at the start of the metadata, when it reads one and the delay is one that
  Node's timers keep, from 1 to \<open>2 ^ 31 - 1\<close> milliseconds.
\<close>

theorem duration_timer_budget:
  assumes "userOfClientEntry st client = Some receiverId" "receiverId \<noteq> []"
    and "validateCallAccess e appointmentId receiverId = Returns v" "v_success v"
    and "map_of (clients st) caller = Some sid" "sid \<noteq> []"
  shows "(nextTimer st, nodeTimerDelay (callTimeoutDelay (durationInMinutes v)),
          DurationTimeout callId)
           \<in> set (timers (fst (handleAnswer e now client callId caller appointmentId answer st))) \<and>
         (durationMetadata v = None \<or> durationMetadata v = Some [] \<longrightarrow>
            nodeTimerDelay (callTimeoutDelay (durationInMinutes v)) = (60 + 5) * 60 * 1000) \<and>
         (\<forall>d n. durationMetadata v = Some d \<and> d \<noteq> [] \<and> parseInt d = Num n \<and>
                 1 \<le> (n + 5) * 60 * 1000 \<and> (n + 5) * 60 * 1000 \<le> 2 ^ 31 - 1 \<longrightarrow>
            nodeTimerDelay (callTimeoutDelay (durationInMinutes v)) = (n + 5) * 60 * 1000)"
proof (intro conjI allI impI)
  show "(nextTimer st, nodeTimerDelay (callTimeoutDelay (durationInMinutes v)),
          DurationTimeout callId)
           \<in> set (timers (fst (handleAnswer e now client callId caller appointmentId answer st)))"
    by (simp add: handleAnswer_accepts [OF assms] startCall_result)
next
  assume "durationMetadata v = None \<or> durationMetadata v = Some []"
  then have "durationInMinutes v = Num 60"
    by (auto simp: durationInMinutes_def)
  then show "nodeTimerDelay (callTimeoutDelay (durationInMinutes v)) = (60 + 5) * 60 * 1000"
    by (simp only: budget_default)
next
  fix d n
  assume h: "durationMetadata v = Some d \<and> d \<noteq> [] \<and> parseInt d = Num n \<and>
             1 \<le> (n + 5) * 60 * 1000 \<and> (n + 5) * 60 * 1000 \<le> 2 ^ 31 - 1"
  then have "durationInMinutes v = Num n"
    by (simp add: durationInMinutes_def)
  moreover from h have "nodeTimerDelay (callTimeoutDelay (Num n)) = (n + 5) * 60 * 1000"
    by (intro budget_in_range) blast+
  ultimately show "nodeTimerDelay (callTimeoutDelay (durationInMinutes v)) = (n + 5) * 60 * 1000"
    by (simp only:)
qed

theorem duration_timer_budget_witness:
  "(1, (30 + 5) * 60 * 1000, DurationTimeout ''c1'')
     \<in> set (timers (fst (handleAnswer (permissiveEnv (Some ''30'')) 1000 ''s2'' ''c1'' ''doctor''
                            ''ap'' ''answer'' ringingPatient))) \<and>
   nodeTimerDelay (callTimeoutDelay (durationInMinutes (grantedWith None))) = (60 + 5) * 60 * 1000"
proof -
  have acc: "userOfClientEntry ringingPatient ''s2'' = Some ''patient''" "''patient'' \<noteq> []"
    by (simp_all add: ringingPatient_eq userOfClientEntry_def)
  have ok: "validateCallAccess (permissiveEnv d) ''ap'' ''patient'' = Returns (grantedWith d)"
    "v_success (grantedWith d)" for d
    by (simp_all add: permissiveEnv_def grantedWith_def)
  have on: "map_of (clients ringingPatient) ''doctor'' = Some ''s1''" "''s1'' \<noteq> []"
    by (simp_all add: ringingPatient_eq)
  have nt: "nextTimer ringingPatient = 1"
    by (simp add: ringingPatient_eq)
  have md: "durationMetadata (grantedWith (Some ''30'')) = Some (codeUnits ''30'') \<and>
            codeUnits ''30'' \<noteq> [] \<and> parseInt (codeUnits ''30'') = Num 30 \<and>
            (1::int) \<le> (30 + 5) * 60 * 1000 \<and> ((30::int) + 5) * 60 * 1000 \<le> 2 ^ 31 - 1"
    by (simp add: durationMetadata_def grantedWith_def parseInt_30)
  have none: "durationMetadata (grantedWith None) = None \<or>
              durationMetadata (grantedWith None) = Some []"
    by (simp add: durationMetadata_def grantedWith_def)
  note a = duration_timer_budget [OF acc ok on, of "Some ''30''" "''c1''" 1000 "''answer''"]
  note b = duration_timer_budget [OF acc ok on, of None]
  have a1: "(1, nodeTimerDelay (callTimeoutDelay (durationInMinutes (grantedWith (Some ''30'')))),
      DurationTimeout ''c1'')
       \<in> set (timers (fst (handleAnswer (permissiveEnv (Some ''30'')) 1000 ''s2'' ''c1'' ''doctor''
                            ''ap'' ''answer'' ringingPatient)))"
    using a [THEN conjunct1] by (simp only: nt)
  have a3: "nodeTimerDelay (callTimeoutDelay (durationInMinutes (grantedWith (Some ''30''))))
          = (30 + 5) * 60 * 1000"
    by (rule a [THEN conjunct2, THEN conjunct2, rule_format, OF md])
  have b2: "nodeTimerDelay (callTimeoutDelay (durationInMinutes (grantedWith None)))
          = (60 + 5) * 60 * 1000"
    by (rule b [THEN conjunct2, THEN conjunct1, rule_format, OF none])
  from a1 a3 b2 show ?thesis by simp
qed

text \<open>
  The claim as stated fails: metadata that is present and has no leading integer does not
  fall back to 60 minutes. The delay computed is \<open>NaN\<close>, and the timer runs after one
  millisecond.
\<close>

theorem unparseable_duration_counterexample:
  "durationMetadata (grantedWith (Some ''abc'')) = Some (codeUnits ''abc'') \<and>
   parseInt (codeUnits ''abc'') = NaN \<and>
   callTimeoutDelay (durationInMinutes (grantedWith (Some ''abc''))) = NaN \<and>
   timers (fst (handleAnswer (permissiveEnv (Some ''abc'')) 1000 ''s2'' ''c1'' ''doctor'' ''ap''
                  ''answer'' ringingPatient)) =
     [(1, 1, DurationTimeout ''c1'')]"
  by (simp add: ringingPatient_eq eval_defs parseInt_abc)






subsection \<open>The disconnect cleanup\<close>

lemma endCallOnDisconnect_fields [simp]:
  "clients (fst (endCallOnDisconnect u e acc)) = clients (fst acc)"
  "socketToUser (fst (endCallOnDisconnect u e acc)) = socketToUser (fst acc)"
  "callRequests (fst (endCallOnDisconnect u e acc)) = callRequests (fst acc)"
  "nextTimer (fst (endCallOnDisconnect u e acc)) = nextTimer (fst acc)"
  "activeCalls (fst (endCallOnDisconnect u e acc)) = AList.delete (fst e) (activeCalls (fst acc))"
  by (simp_all add: endCallOnDisconnect_def Let_def split: prod.splits option.splits)

lemma cancelRequestOnDisconnect_fields [simp]:
  "clients (fst (cancelRequestOnDisconnect u e acc)) = clients (fst acc)"
  "socketToUser (fst (cancelRequestOnDisconnect u e acc)) = socketToUser (fst acc)"
  "activeCalls (fst (cancelRequestOnDisconnect u e acc)) = activeCalls (fst acc)"
  "nextTimer (fst (cancelRequestOnDisconnect u e acc)) = nextTimer (fst acc)"
  "callRequests (fst (cancelRequestOnDisconnect u e acc)) =
     AList.delete (fst e) (callRequests (fst acc))"
  by (simp_all add: cancelRequestOnDisconnect_def Let_def split: prod.splits option.splits)

lemma fold_endCall_fields [simp]:
  "clients (fst (fold (endCallOnDisconnect u) cs acc)) = clients (fst acc)"
  "socketToUser (fst (fold (endCallOnDisconnect u) cs acc)) = socketToUser (fst acc)"
  "callRequests (fst (fold (endCallOnDisconnect u) cs acc)) = callRequests (fst acc)"
  "nextTimer (fst (fold (endCallOnDisconnect u) cs acc)) = nextTimer (fst acc)"
  by (induction cs arbitrary: acc; simp)+

lemma fold_cancelRequest_fields [simp]:
  "clients (fst (fold (cancelRequestOnDisconnect u) cs acc)) = clients (fst acc)"
  "socketToUser (fst (fold (cancelRequestOnDisconnect u) cs acc)) = socketToUser (fst acc)"
  "activeCalls (fst (fold (cancelRequestOnDisconnect u) cs acc)) = activeCalls (fst acc)"
  "nextTimer (fst (fold (cancelRequestOnDisconnect u) cs acc)) = nextTimer (fst acc)"
  by (induction cs arbitrary: acc; simp)+

text \<open>
  Each loop deletes exactly the keys of the snapshot it iterates over.
\<close>

lemma fold_endCall_activeCalls:
  "activeCalls (fst (fold (endCallOnDisconnect u) cs acc)) =
     filter (\<lambda>entry. fst entry \<notin> fst ` set cs) (activeCalls (fst acc))"
proof (induction cs arbitrary: acc)
  case Nil
  show ?case by simp
next
  case (Cons c cs)
  show ?case
    by (auto simp add: Cons.IH AList.delete_eq case_prod_unfold intro!: filter_cong)
qed

lemma fold_cancelRequest_callRequests:
  "callRequests (fst (fold (cancelRequestOnDisconnect u) cs acc)) =
     filter (\<lambda>entry. fst entry \<notin> fst ` set cs) (callRequests (fst acc))"
proof (induction cs arbitrary: acc)
  case Nil
  show ?case by simp
next
  case (Cons c cs)
  show ?case
    by (auto simp add: Cons.IH AList.delete_eq case_prod_unfold intro!: filter_cong)
qed

lemma filter_out_selected:
  "filter P (filter (\<lambda>entry. fst entry \<notin> fst ` set (filter P xs)) xs) = []"
  by (auto simp: filter_empty_conv)

lemma cascade_no_calls:
  "filter (\<lambda>(_, call). ac_caller call = u \<or> ac_receiver call = u)
     (activeCalls (fst (cascadeOnDisconnect u st))) = []"
proof -
  let ?P = "\<lambda>(_, call). ac_caller call = u \<or> ac_receiver call = u"
  have "activeCalls (fst (cascadeOnDisconnect u st)) =
          filter (\<lambda>entry. fst entry \<notin> fst ` set (filter ?P (activeCalls st))) (activeCalls st)"
    by (simp add: cascadeOnDisconnect_def Let_def fold_endCall_activeCalls del: set_filter)
  then show ?thesis by (simp only: filter_out_selected)
qed

lemma cascade_no_requests:
  "filter (\<lambda>(_, request). rq_caller request = u \<or> rq_receiver request = u)
     (callRequests (fst (cascadeOnDisconnect u st))) = []"
proof -
  let ?P = "\<lambda>(_, request). rq_caller request = u \<or> rq_receiver request = u"
  have "callRequests (fst (cascadeOnDisconnect u st)) =
          filter (\<lambda>entry. fst entry \<notin> fst ` set (filter ?P (callRequests st))) (callRequests st)"
    by (simp add: cascadeOnDisconnect_def Let_def fold_cancelRequest_callRequests del: set_filter)
  then show ?thesis by (simp only: filter_out_selected)
qed

lemma cascade_clients:
  "clients (fst (cascadeOnDisconnect u st)) = AList.delete u (clients st)"
  by (simp add: cascadeOnDisconnect_def Let_def)

lemma cascade_socketToUser:
  "socketToUser (fst (cascadeOnDisconnect u st)) = socketToUser st"
  by (simp add: cascadeOnDisconnect_def Let_def)

lemma cascade_again:
  "cascadeOnDisconnect u (fst (cascadeOnDisconnect u st)) = (fst (cascadeOnDisconnect u st), [])"
proof -
  define st' where "st' = fst (cascadeOnDisconnect u st)"
  have c: "AList.delete u (clients st') = clients st'"
    by (simp add: st'_def cascade_clients AList.delete_idem)
  have a: "filter (\<lambda>(_, call). ac_caller call = u \<or> ac_receiver call = u) (activeCalls st') = []"
    by (simp add: st'_def cascade_no_calls)
  have r: "filter (\<lambda>(_, request). rq_caller request = u \<or> rq_receiver request = u)
             (callRequests st') = []"
    by (simp add: st'_def cascade_no_requests)
  have "cascadeOnDisconnect u st' = (st', [])"
    by (simp add: cascadeOnDisconnect_def Let_def c a r)
  then show ?thesis by (simp add: st'_def)
qed

text \<open>
  After the handler has run, the socket has no user left in the reverse index.
\<close>

lemma handleDisconnect_socketToUser:
  "map_of (socketToUser (fst (handleDisconnect c st))) c =
     (case map_of (socketToUser st) c of
        None \<Rightarrow> None
      | Some u \<Rightarrow> if u = [] then Some u else None)"
  by (simp add: handleDisconnect_def Let_def cascade_socketToUser AList.delete_conv'
      split: option.splits)

lemma handleDisconnect_again:
  "handleDisconnect c (fst (handleDisconnect c st)) = (fst (handleDisconnect c st), [])"
proof -
  define st' where "st' = fst (handleDisconnect c st)"
  have "map_of (socketToUser st') c = None \<or> map_of (socketToUser st') c = Some []"
    by (simp add: st'_def handleDisconnect_socketToUser split: option.splits)
  then have "handleDisconnect c st' = (st', [])"
    by (auto simp: handleDisconnect_def)
  then show ?thesis by (simp add: st'_def)
qed

lemma twice_when_again:
  "f (fst (f st)) = (fst (f st), []) \<Longrightarrow> twice f st = f st"
  by (cases "f st") (simp add: twice_def)

text \<open>
  Claim C7. The disconnect cleanup is idempotent: run twice in a row, the cleanup for a
  user (and the handler for a socket) ends in the state of the first run and has emitted
  what the first run emitted; the second run changes nothing and emits nothing.
\<close>

theorem disconnect_cleanup_idempotent:
  "twice (cascadeOnDisconnect u) st = cascadeOnDisconnect u st \<and>
   cascadeOnDisconnect u (fst (cascadeOnDisconnect u st)) = (fst (cascadeOnDisconnect u st), []) \<and>
   twice (handleDisconnect c) st = handleDisconnect c st \<and>
   handleDisconnect c (fst (handleDisconnect c st)) = (fst (handleDisconnect c st), [])"
  by (simp add: cascade_again handleDisconnect_again twice_when_again)

text \<open>
  Claim C4. When the patient's only socket disconnects during the call with the doctor,
  handleDisconnect removes the active call, clears its timer and sends the doctor
  \<open>callEnded\<close> with \<open>endedBy = 'disconnect'\<close>, but it does not call the recording
  service; handleEndCall on the same call does.
\<close>

theorem disconnect_ends_call_without_recording_stop:
  "handleDisconnect ''s2'' doctorPatientCall =
     (\<lparr>clients = [(''doctor'', ''s1''), (''patient2'', ''s3'')],
       socketToUser = [(''s1'', ''doctor''), (''s3'', ''patient2'')],
       activeCalls = [], callRequests = [], timers = [], nextTimer = 2\<rparr>,
      [EmitTo ''s1'' (CallEnded ''c1'' ''ap'' (Some ''disconnect'')
                        ''The other participant disconnected'')]) \<and>
   snd (handleEndCall (permissiveEnv (Some ''30'')) ''s2'' ''c1'' ''ap'' doctorPatientCall) =
     [GatewayStopRecording ''s2'' ''ap'', StopRecording ''ap'',
      EmitTo ''s1'' (CallEnded ''c1'' ''ap'' (Some ''patient'') ''Call ended by participant''),
      EmitTo ''s2'' (CallEnded ''c1'' ''ap'' (Some ''patient'') ''Call ended by participant'')]"
  by (simp add: doctorPatientCall_eq eval_defs)

subsection \<open>Candidates at the receiving endpoint\<close>

lemmas endpoint_defs =
  runEndpoint_def freshEndpoint_def acceptingRtc_def pickyRtc_def
  onIceCandidate_def onCallAccepted_def answerCall_def flushCandidates_def flushNext_def
  addIceCandidate_def applyRemoteDescription_def applyLocalDescription_def

text \<open>
  Claim C8. Buffered candidates are lost, repeated and overtaken. With \<open>k1\<close>,
  \<open>k2\<close> and \<open>k3\<close> in the queue and a browser that rejects \<open>k2\<close>, the flush after
  \<open>callAccepted\<close> gives the peer connection \<open>k1\<close> and ends at \<open>k2\<close>: \<open>k3\<close> is
  never added, nothing is left waiting, and the queue is not emptied. A second
  \<open>callAccepted\<close> then adds \<open>k1\<close> a second time. And with a browser that accepts
  everything, a candidate \<open>k2\<close> that arrives while answerCall waits for createAnswer
  goes to the peer connection ahead of the queued \<open>k1\<close>.
\<close>

theorem flush_loses_and_repeats_candidates:
  "runEndpoint pickyRtc acceptedRun freshEndpoint =
     \<lparr>peerConnection =
        Some \<lparr>pc_remoteDescription = Some ''sdp'', pc_localDescription = None,
              pc_candidates = [''k1'']\<rparr>,
      ep_callId = None, candidateQueue = [''k1'', ''k2'', ''k3''], remoteDescSet = True,
      sentAnswers = [], suspended = []\<rparr> \<and>
   runEndpoint pickyRtc acceptedAgainRun freshEndpoint =
     \<lparr>peerConnection =
        Some \<lparr>pc_remoteDescription = Some ''sdp'', pc_localDescription = None,
              pc_candidates = [''k1'', ''k1'']\<rparr>,
      ep_callId = None, candidateQueue = [''k1'', ''k2'', ''k3''], remoteDescSet = True,
      sentAnswers = [], suspended = []\<rparr> \<and>
   runEndpoint acceptingRtc answeredRun freshEndpoint =
     \<lparr>peerConnection =
        Some \<lparr>pc_remoteDescription = Some ''offer'', pc_localDescription = Some ''answer'',
              pc_candidates = [''k2'', ''k1'']\<rparr>,
      ep_callId = Some ''c1'', candidateQueue = [], remoteDescSet = True,
      sentAnswers = [(''c1'', ''doctor'', ''ap'', ''answer'')], suspended = []\<rparr>"
  by (simp add: acceptedRun_def acceptedAgainRun_def answeredRun_def endpoint_defs)

end
